theory Spec2Isabelle
  imports Complex_Main "HOL-Library.AList"
begin

section \<open>Conventions of the embedding\<close>

text \<open>
  The embedding follows \<^verbatim>\<open>utils/model.py\<close>. The numbers an agent computes with are
  idealised as reals (exact arithmetic, no rounding, no overflow). A float that crosses
  the interface of the wrapper (what a scoring function returns, a cell of a data
  frame) is a \<open>pyfloat\<close>: a real, plus or minus infinity, or \<^verbatim>\<open>NaN\<close>; the log-density of a
  prior is a real or minus infinity. Exceptions are values of the type \<open>error\<close>, and a call
  that may raise returns \<open>error + 'a\<close> with \<open>Inl\<close> for the exception. Objects that the
  source mutates are passed in and returned.
\<close>

datatype error =
    KeyError string
  | IndexError
  | TypeError
  | ValueError
  | AttributeError string
  | NotImplementedError

text \<open>A Python value as a function can return it, as far as the source needs them:
  \<^verbatim>\<open>None\<close>, and an exception class used as an ordinary object.\<close>

datatype pyobj = PyNone | ExcClass error

section \<open>Auxiliary functions\<close>

text \<open>The module constants \<^verbatim>\<open>eps_ = 1e-13\<close> and \<^verbatim>\<open>max_ = 1e+13\<close> (a name cannot
  end in an underscore here).\<close>

definition eps_c :: real where
  "eps_c = 1 / 10 ^ 13"

definition max_c :: real where
  "max_c = 10 ^ 13"

text \<open>\<^verbatim>\<open>np.clip(x, a_min, a_max)\<close> is \<^verbatim>\<open>minimum(a_max, maximum(x, a_min))\<close>.\<close>

definition np_clip :: "real \<Rightarrow> real \<Rightarrow> real \<Rightarrow> real" where
  "np_clip x a_min a_max = min a_max (max x a_min)"

definition clip_exp :: "real \<Rightarrow> real" where
  "clip_exp x = exp (np_clip x (- max_c) 50)"

definition sigmoid :: "real \<Rightarrow> real" where
  "sigmoid x = 1 / (1 + clip_exp (- x))"

section \<open>Memory buffer\<close>

text \<open>\<^verbatim>\<open>simpleBuffer\<close>: one dictionary \<^verbatim>\<open>m\<close> from string keys to values.\<close>

record 'v simpleBuffer =
  m :: "string \<rightharpoonup> 'v"

definition simpleBuffer_init :: "'v simpleBuffer" where
  "simpleBuffer_init = \<lparr>m = Map.empty\<rparr>"

text \<open>\<^verbatim>\<open>self.m = {k: m_dict[k] for k in m_dict.keys()}\<close>: a copy of the argument.\<close>

definition push :: "(string \<rightharpoonup> 'v) \<Rightarrow> 'v simpleBuffer \<Rightarrow> 'v simpleBuffer" where
  "push m_dict self = self\<lparr>m := (\<lambda>k. m_dict k)\<rparr>"

text \<open>The list comprehension \<^verbatim>\<open>[self.m[k] for k in args]\<close>: the first missing key
  raises \<^verbatim>\<open>KeyError\<close>.\<close>

fun lookup_all :: "(string \<rightharpoonup> 'v) \<Rightarrow> string list \<Rightarrow> error + 'v list" where
  "lookup_all d [] = Inr []"
| "lookup_all d (k # ks) =
     (case d k of
        None \<Rightarrow> Inl (KeyError k)
      | Some v \<Rightarrow> (case lookup_all d ks of Inl e \<Rightarrow> Inl e | Inr vs \<Rightarrow> Inr (v # vs)))"

text \<open>\<^verbatim>\<open>sample\<close> returns the bare value for one key and the list otherwise.\<close>

datatype 'v sampled = One 'v | Many "'v list"

definition sample :: "string list \<Rightarrow> 'v simpleBuffer \<Rightarrow> error + 'v sampled" where
  "sample args self =
     (case lookup_all (m self) args of
        Inl e \<Rightarrow> Inl e
      | Inr lst \<Rightarrow> (if length lst = 1 then Inr (One (lst ! 0)) else Inr (Many lst)))"

section \<open>Base agent\<close>

text \<open>The three capability stubs of \<^verbatim>\<open>baseAgent\<close>. Each body is
  \<^verbatim>\<open>return NotImplementedError\<close>: the call returns the exception class as a value and
  leaves the object as it was.\<close>

definition baseAgent_load_params :: "'s \<Rightarrow> real list \<Rightarrow> error + (pyobj \<times> 's)" where
  "baseAgent_load_params self params = Inr (ExcClass NotImplementedError, self)"

definition baseAgent_learn :: "'s \<Rightarrow> error + (pyobj \<times> 's)" where
  "baseAgent_learn self = Inr (ExcClass NotImplementedError, self)"

definition baseAgent_policy :: "'s \<Rightarrow> real list \<Rightarrow> error + (pyobj \<times> 's)" where
  "baseAgent_policy self mo = Inr (ExcClass NotImplementedError, self)"

section \<open>The delta-rule agent \<^verbatim>\<open>RL\<close>\<close>

text \<open>What the agent keeps in its buffer: a number or a string.\<close>

datatype val = Num real | Str string

text \<open>A Python float with its non-finite values, and the arithmetic the wrapper does on
  one: addition, negation, and \<^verbatim>\<open>np.sum\<close> of a list.\<close>

datatype pyfloat = Finite real | PlusInf | MinusInf | NaN




text \<open>A cell of a data frame: a float, \<^verbatim>\<open>NaN\<close> being the missing value, or a string.\<close>

datatype cell = Flt pyfloat | Txt string

text \<open>
  The attributes of an \<^verbatim>\<open>RL\<close> object. \<^verbatim>\<open>o\<close> and \<^verbatim>\<open>pi\<close> do not exist until
  \<^verbatim>\<open>learn\<close> and \<^verbatim>\<open>policy\<close> assign them: \<open>None\<close> is the missing attribute (the
  fields are \<open>o'\<close> and \<open>pi'\<close>, as \<open>o\<close> and \<open>pi\<close> are taken by function composition
  and the circle constant). \<^verbatim>\<open>p_S\<close> and \<^verbatim>\<open>pi\<close> are arrays, here lists.
\<close>

record 'e RL =
  nA :: 'e
  alpha :: real
  beta :: real
  p1 :: real
  p_S :: "real list"
  o' :: "string option"
  pi' :: "real list option"
  mem :: "val simpleBuffer"

definition p_trans :: "(real \<Rightarrow> real) list" where
  "p_trans = [\<lambda>x. 1 / (1 + clip_exp (- x)), \<lambda>x. clip_exp x]"

definition p_name :: "string list" where
  "p_name = [''alpha'', ''beta'']"

text \<open>\<^verbatim>\<open>[fn(p) for fn, p in zip(self.p_trans, params)]\<close>; \<^verbatim>\<open>zip\<close> stops at the shorter
  of its arguments.\<close>

definition transform :: "(real \<Rightarrow> real) list \<Rightarrow> real list \<Rightarrow> real list" where
  "transform fns params = map (\<lambda>(fn, p). fn p) (zip fns params)"

text \<open>\<^verbatim>\<open>RL.load_params\<close>: \<^verbatim>\<open>params[0]\<close> and \<^verbatim>\<open>params[1]\<close> raise \<^verbatim>\<open>IndexError\<close> on
  a list that is too short.\<close>

definition load_params :: "real list \<Rightarrow> 'e RL \<Rightarrow> error + 'e RL" where
  "load_params params self =
     (let ps = transform p_trans params in
      if length ps \<le> 0 then Inl IndexError
      else if length ps \<le> 1 then Inl IndexError
      else Inr (self\<lparr>alpha := ps ! 0, beta := ps ! 1\<rparr>))"

definition init_critic :: "'e RL \<Rightarrow> 'e RL" where
  "init_critic self =
     (let self1 = self\<lparr>p1 := 1 / 2\<rparr>
      in self1\<lparr>p_S := [1 - p1 self1, p1 self1]\<rparr>)"

text \<open>\<^verbatim>\<open>_init_actor\<close> and \<^verbatim>\<open>_init_dists\<close> are \<^verbatim>\<open>pass\<close>.\<close>

definition init_believes :: "'e RL \<Rightarrow> 'e RL" where
  "init_believes self = init_critic self"

definition init_buffer :: "'e RL \<Rightarrow> 'e RL" where
  "init_buffer self = self\<lparr>mem := simpleBuffer_init\<rparr>"

text \<open>The object before \<^verbatim>\<open>__init__\<close> has assigned anything but \<^verbatim>\<open>nA\<close>. The numeric
  fields hold placeholders, each overwritten before the constructor returns.\<close>

definition blank :: "'e \<Rightarrow> 'e RL" where
  "blank n = \<lparr>nA = n, alpha = 0, beta = 0, p1 = 0, p_S = [], o' = None, pi' = None,
     mem = simpleBuffer_init\<rparr>"

text \<open>\<^verbatim>\<open>baseAgent.__init__\<close>, inherited by \<^verbatim>\<open>RL\<close>.\<close>

definition RL_new :: "'e \<Rightarrow> real list \<Rightarrow> error + 'e RL" where
  "RL_new n params =
     (case load_params params (blank n) of
        Inl e \<Rightarrow> Inl e
      | Inr self \<Rightarrow> Inr (init_buffer (init_believes self)))"

text \<open>\<^verbatim>\<open>_learn_critic\<close>. Unpacking the sample into three names needs a list of three;
  \<^verbatim>\<open>s - self.p1\<close> needs a number.\<close>

definition learn_critic :: "'e RL \<Rightarrow> error + 'e RL" where
  "learn_critic self =
     (case sample [''s'', ''t_type'', ''f_type''] (mem self) of
        Inl e \<Rightarrow> Inl e
      | Inr (One v) \<Rightarrow> Inl TypeError
      | Inr (Many lst) \<Rightarrow>
          (case lst of
             [s, t, f] \<Rightarrow>
               (case s of
                  Str w \<Rightarrow> Inl TypeError
                | Num sv \<Rightarrow>
                    (let delta = sv - p1 self;
                         ov = (if delta > 0 then ''pos'' else ''neg'');
                         self1 = self\<lparr>o' := Some ov\<rparr>;
                         self2 = self1\<lparr>p1 := p1 self1 + alpha self1 * delta\<rparr>
                     in Inr (self2\<lparr>p_S := [1 - p1 self2, p1 self2]\<rparr>)))
           | _ \<Rightarrow> Inl ValueError))"

definition learn :: "'e RL \<Rightarrow> error + 'e RL" where
  "learn self = learn_critic self"

text \<open>\<^verbatim>\<open>scipy.special.softmax\<close> of a vector: \<open>exp x\<^sub>i / \<Sum>\<^sub>j exp x\<^sub>j\<close>.\<close>

definition softmax :: "real list \<Rightarrow> real list" where
  "softmax xs = map (\<lambda>x. exp x / sum_list (map exp xs)) xs"

text \<open>The product of two arrays of one dimension, with numpy's broadcasting: equal
  lengths multiply by position, a length of one is stretched, anything else raises.\<close>

definition np_mul :: "real list \<Rightarrow> real list \<Rightarrow> error + real list" where
  "np_mul a b =
     (if length a = length b then Inr (map (\<lambda>(x, y). x * y) (zip a b))
      else if length a = 1 then Inr (map (\<lambda>y. (a ! 0) * y) b)
      else if length b = 1 then Inr (map (\<lambda>x. x * (b ! 0)) a)
      else Inl ValueError)"

text \<open>\<^verbatim>\<open>policy\<close> stores the distribution in \<^verbatim>\<open>self.pi\<close> and returns it.\<close>

definition policy :: "real list \<Rightarrow> 'e RL \<Rightarrow> error + (real list \<times> 'e RL)" where
  "policy mo self =
     (case np_mul (map (\<lambda>x. beta self * x) (p_S self)) mo of
        Inl e \<Rightarrow> Inl e
      | Inr x \<Rightarrow> (let self1 = self\<lparr>pi' := Some (softmax x)\<rparr> in Inr (softmax x, self1)))"

definition get_pS1 :: "'e RL \<Rightarrow> error + real" where
  "get_pS1 self = (if 1 < length (p_S self) then Inr (p_S self ! 1) else Inl IndexError)"

definition get_pi1 :: "'e RL \<Rightarrow> error + real" where
  "get_pi1 self =
     (case pi' self of
        None \<Rightarrow> Inl (AttributeError ''pi'')
      | Some d \<Rightarrow> (if 1 < length d then Inr (d ! 1) else Inl IndexError))"

text \<open>\<^verbatim>\<open>eval(f'subj.get_{v}()')\<close> on an \<^verbatim>\<open>RL\<close> object: the two getters it has, and
  \<^verbatim>\<open>AttributeError\<close> for any other name.\<close>

definition RL_getter :: "string \<Rightarrow> 'e RL \<Rightarrow> error + cell" where
  "RL_getter v self =
     (if v = ''pS1''
      then (case get_pS1 self of Inl e \<Rightarrow> Inl e | Inr x \<Rightarrow> Inr (Flt (Finite x)))
      else if v = ''pi1''
      then (case get_pi1 self of Inl e \<Rightarrow> Inl e | Inr x \<Rightarrow> Inr (Flt (Finite x)))
      else Inl (AttributeError (''get_'' @ v)))"

section \<open>Data frames\<close>

text \<open>
  A pandas data frame, as far as the wrapper uses one: a number of rows, labelled
  \<open>0, 1, \<dots>\<close> (the wrapper reads the block type at label 0 and writes its output at the
  labels \<^verbatim>\<open>iterrows\<close> yields), and named columns in order, each with one cell per row.
\<close>

type_synonym row = "(string \<times> cell) list"

record frame =
  nrows :: nat
  columns :: "(string \<times> cell list) list"

definition column_names :: "frame \<Rightarrow> string list" where
  "column_names f = map fst (columns f)"

text \<open>\<^verbatim>\<open>df.loc[t, c]\<close>: a missing row label or column name raises \<^verbatim>\<open>KeyError\<close>.\<close>

definition loc :: "frame \<Rightarrow> nat \<Rightarrow> string \<Rightarrow> error + cell" where
  "loc f t c =
     (if t < nrows f
      then (case map_of (columns f) c of
              None \<Rightarrow> Inl (KeyError c)
            | Some vs \<Rightarrow> (if t < length vs then Inr (vs ! t) else Inl IndexError))
      else Inl (KeyError ''row label''))"

definition row_at :: "frame \<Rightarrow> nat \<Rightarrow> row" where
  "row_at f t = map (\<lambda>(c, vs). (c, vs ! t)) (columns f)"

definition iterrows :: "frame \<Rightarrow> (nat \<times> row) list" where
  "iterrows f = map (\<lambda>t. (t, row_at f t)) [0..<nrows f]"

text \<open>\<^verbatim>\<open>pd.DataFrame(np.zeros([n, len(col)]) + np.nan, columns=col)\<close>.\<close>

definition nan_frame :: "nat \<Rightarrow> string list \<Rightarrow> frame" where
  "nan_frame n col = \<lparr>nrows = n, columns = map (\<lambda>c. (c, replicate n (Flt NaN))) col\<rparr>"

text \<open>\<^verbatim>\<open>df.loc[t, c] = x\<close> at a row label the frame has: every column named \<open>c\<close> gets
  the value; a name the frame does not have adds a column, missing elsewhere.\<close>

definition set_loc :: "nat \<Rightarrow> string \<Rightarrow> cell \<Rightarrow> frame \<Rightarrow> frame" where
  "set_loc t c x f =
     (if c \<in> set (column_names f)
      then f\<lparr>columns := map (\<lambda>(c', vs). if c' = c then (c', vs[t := x]) else (c', vs))
                              (columns f)\<rparr>
      else f\<lparr>columns := columns f @ [(c, (replicate (nrows f) (Flt NaN))[t := x])]\<rparr>)"

text \<open>\<^verbatim>\<open>df.dropna(axis=1, how='all')\<close>: a column goes when every cell of it is missing.\<close>

definition dropna_all :: "frame \<Rightarrow> frame" where
  "dropna_all f =
     f\<lparr>columns := filter (\<lambda>(c, vs). \<not> list_all (\<lambda>v. v = Flt NaN) vs) (columns f)\<rparr>"

text \<open>\<^verbatim>\<open>pd.concat([a, b], axis=1)\<close> of two frames with the same row labels.\<close>

definition concat_cols :: "frame \<Rightarrow> frame \<Rightarrow> frame" where
  "concat_cols a b = \<lparr>nrows = nrows a, columns = columns a @ columns b\<rparr>"

text \<open>\<^verbatim>\<open>df.drop(columns=v)\<close>.\<close>

definition drop_column :: "string \<Rightarrow> frame \<Rightarrow> frame" where
  "drop_column v f = f\<lparr>columns := filter (\<lambda>(c, vs). c \<noteq> v) (columns f)\<rparr>"

text \<open>The keys of a list in the order of their first occurrence.\<close>

definition first_occurrences :: "'a list \<Rightarrow> 'a list" where
  "first_occurrences xs = rev (remdups (rev xs))"

text \<open>\<^verbatim>\<open>pd.concat(frames, ignore_index=True)\<close>: the rows one after the other under the
  union of the column names, a frame without a column giving missing cells; no frames
  at all raise \<^verbatim>\<open>ValueError\<close>. (Column names are taken to be distinct in each frame.)\<close>

definition pd_concat :: "frame list \<Rightarrow> error + frame" where
  "pd_concat fs =
     (if fs = [] then Inl ValueError
      else Inr \<lparr>nrows = sum_list (map nrows fs),
                columns =
                  map (\<lambda>c. (c, concat (map (\<lambda>f. case map_of (columns f) c of
                                                    None \<Rightarrow> replicate (nrows f) (Flt NaN)
                                                  | Some vs \<Rightarrow> vs) fs)))
                      (first_occurrences (concat (map column_names fs)))\<rparr>)"

section \<open>The collaborators of the wrapper\<close>

text \<open>
  The environment factory \<^verbatim>\<open>utils.env_fn\<close> and the agent class are arguments of the
  wrapper. An environment class makes an environment \<open>'e\<close> from a block type, declares
  the variables it generates, and has the two per-trial functions; both may change
  the environment and the agent \<open>'s\<close>, and \<^verbatim>\<open>sim_fn\<close> the random source \<open>'r\<close>. An
  agent class makes an agent from an environment and a raw parameter vector, declares
  its variables of interest, and answers \<^verbatim>\<open>eval(f'subj.get_{v}()')\<close> through \<open>getter\<close>.
  The source reads the generated variables as \<^verbatim>\<open>self.env_fn.voi\<close> on the class and as
  \<^verbatim>\<open>env.voi\<close> on the instance; both are the one list \<open>env_voi\<close>.
\<close>

record ('e, 's, 'r) environment =
  env_make :: "cell \<Rightarrow> error + 'e"
  env_voi :: "string list"
  eval_fn :: "row \<Rightarrow> 'e \<Rightarrow> 's \<Rightarrow> error + (pyfloat \<times> 'e \<times> 's)"
  sim_fn :: "row \<Rightarrow> 'e \<Rightarrow> 's \<Rightarrow> 'r \<Rightarrow> error + (cell list \<times> 'e \<times> 's \<times> 'r)"

record ('e, 's) agent_class =
  agent_make :: "'e \<Rightarrow> real list \<Rightarrow> error + 's"
  voi :: "string list"
  getter :: "string \<Rightarrow> 's \<Rightarrow> error + cell"

text \<open>The class \<^verbatim>\<open>RL\<close> as an agent class; its \<^verbatim>\<open>voi\<close> is empty.\<close>

definition RL_class :: "('e, 'e RL) agent_class" where
  "RL_class = \<lparr>agent_make = RL_new, voi = [], getter = RL_getter\<rparr>"

text \<open>The log-density of a prior at a point (\<^verbatim>\<open>pri.logpdf(param)\<close>): a real number, or
  minus infinity where the prior has no mass.\<close>

datatype logdens = NegInf | Fin real

type_synonym prior = "real \<Rightarrow> logdens"

text \<open>A dataset is a dictionary from block identifiers to blocks; its keys are
  distinct, and it is read in the order of its keys.\<close>

type_synonym dataset = "(string \<times> frame) list"

section \<open>The wrapper\<close>

record ('e, 's, 'r) wrapper =
  agent :: "('e, 's) agent_class"
  env_fn :: "('e, 's, 'r) environment"
  use_hook :: bool
  insights :: "(string \<times> cell list) list"

text \<open>\<^verbatim>\<open>__init__\<close>. The attribute \<^verbatim>\<open>insights\<close> does not exist before
  \<^verbatim>\<open>register_hooks\<close>, and is not read while \<^verbatim>\<open>use_hook\<close> is false.\<close>

definition wrapper_init :: "('e, 's) agent_class \<Rightarrow> ('e, 's, 'r) environment \<Rightarrow> ('e, 's, 'r) wrapper" where
  "wrapper_init a e = \<lparr>agent = a, env_fn = e, use_hook = False, insights = []\<rparr>"

text \<open>The three lines that open \<^verbatim>\<open>loglike\<close>, \<^verbatim>\<open>eval_block\<close> and \<^verbatim>\<open>sim_block\<close>: read the
  block type at row 0, make the environment, make the agent.\<close>

definition init_subject :: "('e, 's, 'r) wrapper \<Rightarrow> frame \<Rightarrow> real list \<Rightarrow> error + ('e \<times> 's)" where
  "init_subject self block_data params =
     (case loc block_data 0 ''block_type'' of
        Inl e \<Rightarrow> Inl e
      | Inr block_type \<Rightarrow>
          (case env_make (env_fn self) block_type of
             Inl e \<Rightarrow> Inl e
           | Inr env \<Rightarrow>
               (case agent_make (agent self) env params of
                  Inl e \<Rightarrow> Inl e
                | Inr subj \<Rightarrow> Inr (env, subj))))"

subsection \<open>Fit\<close>



text \<open>\<^verbatim>\<open>np.max([x, -max_])\<close>.\<close>

definition floor_logpdf :: "logdens \<Rightarrow> real" where
  "floor_logpdf x = (case x of NegInf \<Rightarrow> - max_c | Fin r \<Rightarrow> max r (- max_c))"

fun logprior_loop :: "(prior \<times> real) list \<Rightarrow> real \<Rightarrow> real" where
  "logprior_loop [] lpr = lpr"
| "logprior_loop ((pri, param) # rest) lpr = logprior_loop rest (lpr + floor_logpdf (pri param))"

definition logprior :: "real list \<Rightarrow> prior list \<Rightarrow> real" where
  "logprior params p_priors = logprior_loop (zip p_priors params) 0"

text \<open>A list comprehension whose body may raise.\<close>

fun map_err :: "('a \<Rightarrow> error + 'b) \<Rightarrow> 'a list \<Rightarrow> error + 'b list" where
  "map_err g [] = Inr []"
| "map_err g (x # xs) =
     (case g x of
        Inl e \<Rightarrow> Inl e
      | Inr y \<Rightarrow> (case map_err g xs of Inl e \<Rightarrow> Inl e | Inr ys \<Rightarrow> Inr (y # ys)))"


subsection \<open>Evaluate\<close>

text \<open>The loop of \<^verbatim>\<open>eval_block\<close>. The lines that would record the agent's variables
  of interest are commented out in the source; the loop writes the column \<^verbatim>\<open>ll\<close> only.\<close>

fun eval_rows ::
  "('e, 's, 'r) environment \<Rightarrow> (nat \<times> row) list \<Rightarrow> frame \<Rightarrow> 'e \<Rightarrow> 's \<Rightarrow> error + frame" where
  "eval_rows E [] pred_data env subj = Inr pred_data"
| "eval_rows E ((t, r) # rest) pred_data env subj =
     (case eval_fn E r env subj of
        Inl e \<Rightarrow> Inl e
      | Inr (ll, env', subj') \<Rightarrow>
          eval_rows E rest (set_loc t ''ll'' (Flt ll) pred_data) env' subj')"

definition eval_block :: "('e, 's, 'r) wrapper \<Rightarrow> frame \<Rightarrow> real list \<Rightarrow> error + frame" where
  "eval_block self block_data params =
     (case init_subject self block_data params of
        Inl e \<Rightarrow> Inl e
      | Inr (env, subj) \<Rightarrow>
          (let col = ''ll'' # voi (agent self);
               pred_data = nan_frame (nrows block_data) col
           in case eval_rows (env_fn self) (iterrows block_data) pred_data env subj of
                Inl e \<Rightarrow> Inl e
              | Inr pred_data' \<Rightarrow> Inr (concat_cols block_data (dropna_all pred_data'))))"

text \<open>\<^verbatim>\<open>wrapper.eval\<close>.\<close>

definition eval_data :: "('e, 's, 'r) wrapper \<Rightarrow> dataset \<Rightarrow> real list \<Rightarrow> error + frame" where
  "eval_data self data params =
     (case map_err (\<lambda>block_data. eval_block self block_data params) (map snd data) of
        Inl e \<Rightarrow> Inl e
      | Inr sim_data \<Rightarrow> pd_concat sim_data)"

subsection \<open>Simulate\<close>

text \<open>\<^verbatim>\<open>for i, v in enumerate(self.agent.voi): pred_data.loc[t, v] = eval(f'subj.get_{v}()')\<close>.\<close>

fun record_agent_voi ::
  "('e, 's) agent_class \<Rightarrow> nat \<Rightarrow> string list \<Rightarrow> 's \<Rightarrow> frame \<Rightarrow> error + frame" where
  "record_agent_voi A t [] subj pred_data = Inr pred_data"
| "record_agent_voi A t (v # vs) subj pred_data =
     (case getter A v subj of
        Inl e \<Rightarrow> Inl e
      | Inr x \<Rightarrow> record_agent_voi A t vs subj (set_loc t v x pred_data))"

text \<open>\<^verbatim>\<open>for k in self.insights.keys(): self.insights[k].append(eval(f'subj.get_{k}()'))\<close>.\<close>

fun run_hooks ::
  "('e, 's) agent_class \<Rightarrow> string list \<Rightarrow> 's \<Rightarrow> (string \<times> cell list) list
     \<Rightarrow> error + (string \<times> cell list) list" where
  "run_hooks A [] subj ins = Inr ins"
| "run_hooks A (k # ks) subj ins =
     (case getter A k subj of
        Inl e \<Rightarrow> Inl e
      | Inr x \<Rightarrow> run_hooks A ks subj (AList.map_entry k (\<lambda>l. l @ [x]) ins))"

definition enumerate_list :: "'a list \<Rightarrow> (nat \<times> 'a) list" where
  "enumerate_list xs = zip [0..<length xs] xs"

text \<open>\<^verbatim>\<open>for i, v in enumerate(env.voi): pred_data.loc[t, v] = subj_voi[i]\<close>.\<close>

fun record_env_voi :: "nat \<Rightarrow> (nat \<times> string) list \<Rightarrow> cell list \<Rightarrow> frame \<Rightarrow> error + frame" where
  "record_env_voi t [] subj_voi pred_data = Inr pred_data"
| "record_env_voi t ((i, v) # rest) subj_voi pred_data =
     (if i < length subj_voi
      then record_env_voi t rest subj_voi (set_loc t v (subj_voi ! i) pred_data)
      else Inl IndexError)"

text \<open>The loop of \<^verbatim>\<open>sim_block\<close>; the insights log of the wrapper is threaded through.\<close>

fun sim_rows ::
  "('e, 's) agent_class \<Rightarrow> ('e, 's, 'r) environment \<Rightarrow> bool \<Rightarrow> (nat \<times> row) list \<Rightarrow> frame
     \<Rightarrow> 'e \<Rightarrow> 's \<Rightarrow> 'r \<Rightarrow> (string \<times> cell list) list
     \<Rightarrow> error + (frame \<times> 'r \<times> (string \<times> cell list) list)" where
  "sim_rows A E hook [] pred_data env subj rng ins = Inr (pred_data, rng, ins)"
| "sim_rows A E hook ((t, r) # rest) pred_data env subj rng ins =
     (case sim_fn E r env subj rng of
        Inl e \<Rightarrow> Inl e
      | Inr (subj_voi, env', subj', rng') \<Rightarrow>
          (case record_agent_voi A t (voi A) subj' pred_data of
             Inl e \<Rightarrow> Inl e
           | Inr pred1 \<Rightarrow>
               (case (if hook then run_hooks A (map fst ins) subj' ins else Inr ins) of
                  Inl e \<Rightarrow> Inl e
                | Inr ins' \<Rightarrow>
                    (case record_env_voi t (enumerate_list (env_voi E)) subj_voi pred1 of
                       Inl e \<Rightarrow> Inl e
                     | Inr pred2 \<Rightarrow> sim_rows A E hook rest pred2 env' subj' rng' ins'))))"

definition sim_block ::
  "('e, 's, 'r) wrapper \<Rightarrow> frame \<Rightarrow> real list \<Rightarrow> 'r
     \<Rightarrow> error + (frame \<times> 'r \<times> ('e, 's, 'r) wrapper)" where
  "sim_block self block_data params rng =
     (case init_subject self block_data params of
        Inl e \<Rightarrow> Inl e
      | Inr (env, subj) \<Rightarrow>
          (let col = env_voi (env_fn self) @ voi (agent self);
               pred_data = nan_frame (nrows block_data) col
           in case sim_rows (agent self) (env_fn self) (use_hook self) (iterrows block_data)
                     pred_data env subj rng (insights self) of
                Inl e \<Rightarrow> Inl e
              | Inr (pred_data', rng', ins') \<Rightarrow>
                  Inr (concat_cols block_data (dropna_all pred_data'), rng',
                       self\<lparr>insights := ins'\<rparr>)))"

text \<open>\<^verbatim>\<open>for v in self.env_fn.voi: if v in block_data.columns: block_data = block_data.drop(columns=v)\<close>.\<close>

definition strip_voi :: "string list \<Rightarrow> frame \<Rightarrow> frame" where
  "strip_voi vs block_data =
     fold (\<lambda>v bd. if v \<in> set (column_names bd) then drop_column v bd else bd) vs block_data"

text \<open>The loop of \<^verbatim>\<open>sim\<close> over the blocks.\<close>

fun sim_blocks ::
  "('e, 's, 'r) wrapper \<Rightarrow> frame list \<Rightarrow> real list \<Rightarrow> 'r
     \<Rightarrow> error + (frame list \<times> 'r \<times> ('e, 's, 'r) wrapper)" where
  "sim_blocks self [] params rng = Inr ([], rng, self)"
| "sim_blocks self (b # bs) params rng =
     (case sim_block self (strip_voi (env_voi (env_fn self)) b) params rng of
        Inl e \<Rightarrow> Inl e
      | Inr (out, rng', self') \<Rightarrow>
          (case sim_blocks self' bs params rng' of
             Inl e \<Rightarrow> Inl e
           | Inr (outs, rng'', self'') \<Rightarrow> Inr (out # outs, rng'', self'')))"

definition sim ::
  "('e, 's, 'r) wrapper \<Rightarrow> dataset \<Rightarrow> real list \<Rightarrow> 'r
     \<Rightarrow> error + (frame \<times> 'r \<times> ('e, 's, 'r) wrapper)" where
  "sim self data params rng =
     (case sim_blocks self (map snd data) params rng of
        Inl e \<Rightarrow> Inl e
      | Inr (sim_data, rng', self') \<Rightarrow>
          (case pd_concat sim_data of
             Inl e \<Rightarrow> Inl e
           | Inr out \<Rightarrow> Inr (out, rng', self')))"

text \<open>\<^verbatim>\<open>self.insights = {k: [] for k in args}\<close>: a dictionary built key by key.\<close>

definition register_hooks :: "string list \<Rightarrow> ('e, 's, 'r) wrapper \<Rightarrow> ('e, 's, 'r) wrapper" where
  "register_hooks args self =
     self\<lparr>use_hook := True, insights := fold (\<lambda>k d. AList.update k [] d) args []\<rparr>"

text \<open>The number of trials of a dataset.\<close>

definition n_trials :: "dataset \<Rightarrow> nat" where
  "n_trials data = sum_list (map (\<lambda>(k, b). nrows b) data)"

section \<open>Notions used to state the results\<close>

text \<open>The outcomes of the scoring calls that a run over the rows makes, in order: the
  run stops at the first call that raises.\<close>

fun trial_scores ::
  "('e, 's, 'r) environment \<Rightarrow> (nat \<times> row) list \<Rightarrow> 'e \<Rightarrow> 's \<Rightarrow> (error + pyfloat) list" where
  "trial_scores E [] env subj = []"
| "trial_scores E ((t, r) # rest) env subj =
     (case eval_fn E r env subj of
        Inl e \<Rightarrow> [Inl e]
      | Inr (v, env', subj') \<Rightarrow> Inr v # trial_scores E rest env' subj')"

text \<open>The scoring calls that \<^verbatim>\<open>loglike\<close> makes on a block: none when the set-up of the
  block raises.\<close>

definition scoring_calls ::
  "('e, 's, 'r) wrapper \<Rightarrow> real list \<Rightarrow> frame \<Rightarrow> (error + pyfloat) list" where
  "scoring_calls self params block_data =
     (case init_subject self block_data params of
        Inl e \<Rightarrow> []
      | Inr (env, subj) \<Rightarrow> trial_scores (env_fn self) (iterrows block_data) env subj)"



text \<open>A log entry \<open>new\<close> continues the entry \<open>old\<close> by \<open>n\<close> values: the same name, the old
  values first and unchanged, and \<open>n\<close> values more.\<close>

definition extends_by :: "nat \<Rightarrow> string \<times> cell list \<Rightarrow> string \<times> cell list \<Rightarrow> bool" where
  "extends_by n old new =
     (fst new = fst old \<and> length (snd new) = length (snd old) + n
      \<and> take (length (snd old)) (snd new) = snd old)"

text \<open>The insights log \<open>ins'\<close> is the log \<open>ins\<close> with every entry continued by \<open>n\<close> values.\<close>

definition logs_grown ::
  "nat \<Rightarrow> (string \<times> cell list) list \<Rightarrow> (string \<times> cell list) list \<Rightarrow> bool" where
  "logs_grown n ins ins' = list_all2 (extends_by n) ins ins'"

section \<open>A small environment for concrete runs\<close>

text \<open>
  The environment factory is not part of \<^verbatim>\<open>utils/model.py\<close>. For runs on concrete
  inputs, \<open>demo_env\<close> is an environment over \<^verbatim>\<open>RL\<close> agents with a counter for the random
  source. Scoring a trial pushes the row's outcome \<^verbatim>\<open>s\<close> with the two type keys, lets
  the agent learn, and reports the agent's new estimate minus one. Simulating a trial
  asks the agent for its policy, generates the outcome 1, lets the agent learn from
  it, and advances the counter.
\<close>

definition demo_push :: "val \<Rightarrow> 'e RL \<Rightarrow> 'e RL" where
  "demo_push s subj =
     subj\<lparr>mem := push [''s'' \<mapsto> s, ''t_type'' \<mapsto> Str ''sta'', ''f_type'' \<mapsto> Str ''gain'']
                    (mem subj)\<rparr>"

definition demo_eval_fn ::
  "row \<Rightarrow> unit \<Rightarrow> unit RL \<Rightarrow> error + (pyfloat \<times> unit \<times> unit RL)" where
  "demo_eval_fn r env subj =
     (case map_of r ''s'' of
        Some (Flt (Finite s)) \<Rightarrow>
          (case learn (demo_push (Num s) subj) of
             Inl e \<Rightarrow> Inl e
           | Inr subj' \<Rightarrow> Inr (Finite (p1 subj' - 1), env, subj'))
      | _ \<Rightarrow> Inl (KeyError ''s''))"

definition demo_sim_fn ::
  "row \<Rightarrow> unit \<Rightarrow> unit RL \<Rightarrow> nat \<Rightarrow> error + (cell list \<times> unit \<times> unit RL \<times> nat)" where
  "demo_sim_fn r env subj rng =
     (case policy [1, 1] subj of
        Inl e \<Rightarrow> Inl e
      | Inr (d, subj1) \<Rightarrow>
          (case learn (demo_push (Num 1) subj1) of
             Inl e \<Rightarrow> Inl e
           | Inr subj2 \<Rightarrow> Inr ([Flt (Finite 1)], env, subj2, Suc rng)))"

definition demo_env :: "(unit, unit RL, nat) environment" where
  "demo_env = \<lparr>env_make = (\<lambda>block_type. Inr ()), env_voi = [''s''],
     eval_fn = demo_eval_fn, sim_fn = demo_sim_fn\<rparr>"

definition demo_wrapper :: "(unit, unit RL, nat) wrapper" where
  "demo_wrapper = wrapper_init RL_class demo_env"



text \<open>The agent that \<^verbatim>\<open>RL(env, [0, 0])\<close> constructs: \<^verbatim>\<open>alpha\<close> is the sigmoid of 0 and
  \<^verbatim>\<open>beta\<close> the exponential of 0.\<close>

definition demo_agent :: "unit RL" where
  "demo_agent = \<lparr>nA = (), alpha = 1 / 2, beta = 1, p1 = 1 / 2, p_S = [1 / 2, 1 / 2],
     o' = None, pi' = None, mem = simpleBuffer_init\<rparr>"

text \<open>Two priors: one with a finite log-density everywhere, one without mass below 0.\<close>

definition flat_prior :: prior where
  "flat_prior x = Fin 0"

definition positive_prior :: prior where
  "positive_prior x = (if x < 0 then NegInf else Fin (- x))"

text \<open>A variant of \<^verbatim>\<open>RL\<close> that declares its estimate \<^verbatim>\<open>pS1\<close> as a variable of
  interest, as a subclass with \<^verbatim>\<open>voi = ['pS1']\<close> does, and a wrapper on it.\<close>

definition RL_voi_class :: "('e, 'e RL) agent_class" where
  "RL_voi_class = \<lparr>agent_make = RL_new, voi = [''pS1''], getter = RL_getter\<rparr>"

definition demo_wrapper_voi :: "(unit, unit RL, nat) wrapper" where
  "demo_wrapper_voi = wrapper_init RL_voi_class demo_env"

text \<open>A block of two trials with outcomes 1 and 0, and a block without rows.\<close>

definition demo_block :: frame where
  "demo_block = \<lparr>nrows = 2, columns =
     [(''block_type'', [Txt ''sta'', Txt ''sta'']),
      (''s'', [Flt (Finite 1), Flt (Finite 0)])]\<rparr>"

definition empty_block :: frame where
  "empty_block = \<lparr>nrows = 0, columns = [(''block_type'', []), (''s'', [])]\<rparr>"

text \<open>The wrapper with a hook on \<^verbatim>\<open>pS1\<close>, a dataset of one block, and the table that
  simulating this block gives: the generated outcome replaces the observed one.\<close>

definition hooked_wrapper :: "(unit, unit RL, nat) wrapper" where
  "hooked_wrapper = register_hooks [''pS1''] demo_wrapper"

definition demo_data :: dataset where
  "demo_data = [(''b1'', demo_block)]"

definition demo_sim_out :: frame where
  "demo_sim_out = \<lparr>nrows = 2, columns =
     [(''block_type'', [Txt ''sta'', Txt ''sta'']),
      (''s'', [Flt (Finite 1), Flt (Finite 1)])]\<rparr>"

section \<open>Results about the auxiliary functions\<close>

lemma np_clip_le: "np_clip x lo hi \<le> hi"
  by (simp add: np_clip_def)

text \<open>
  Claim C9. For every real \<open>x\<close>, \<open>clip_exp x\<close> is the exponential of \<open>x\<close> clipped to
  at most 50 and at least \<open>-1e13\<close>; it is positive and never exceeds \<open>e^50\<close>; and
  \<open>sigmoid x\<close> is \<open>1 / (1 + clip_exp (-x))\<close>, the same clipped exponential on the
  negated input.
\<close>

theorem clip_exp_bounded:
  "clip_exp x = exp (min 50 (max x (- (10 ^ 13))))
   \<and> 0 < clip_exp x \<and> clip_exp x \<le> exp 50
   \<and> sigmoid x = 1 / (1 + clip_exp (- x))"
  by (simp add: clip_exp_def sigmoid_def max_c_def np_clip_def)

section \<open>Results about the base agent\<close>

text \<open>
  Claim C1. Calling \<^verbatim>\<open>learn()\<close>, \<^verbatim>\<open>policy(m)\<close> or \<^verbatim>\<open>load_params(params)\<close> on the
  abstract base agent should raise. The source returns the class
  \<^verbatim>\<open>NotImplementedError\<close> as a value instead: each of the three calls completes without
  an error, on every object and every argument, and leaves the object unchanged.
\<close>

theorem base_stubs_return_class:
  "baseAgent_load_params self params = Inr (ExcClass NotImplementedError, self)
   \<and> baseAgent_learn self = Inr (ExcClass NotImplementedError, self)
   \<and> baseAgent_policy self mo = Inr (ExcClass NotImplementedError, self)"
  by (simp add: baseAgent_load_params_def baseAgent_learn_def baseAgent_policy_def)

section \<open>Results about the memory buffer\<close>

lemma lookup_all_missing:
  "k \<in> set ks \<Longrightarrow> d k = None \<Longrightarrow> \<exists>e. lookup_all d ks = Inl e"
  by (induction ks) (auto split: option.splits sum.splits)

text \<open>
  Claim C5. After \<^verbatim>\<open>push({'a':1,'b':2})\<close>, \<^verbatim>\<open>sample('a','b')\<close> returns 1 and 2 in that
  order; after a further \<^verbatim>\<open>push({'a':3})\<close>, \<^verbatim>\<open>sample('b')\<close> raises \<^verbatim>\<open>KeyError\<close> rather
  than returning the stale 2. In general \<^verbatim>\<open>push\<close> replaces the whole content of the
  buffer by its argument, and a sample that asks for a key absent from the latest push
  raises.
\<close>

theorem buffer_round_trip:
  "sample [''a'', ''b''] (push [''a'' \<mapsto> 1, ''b'' \<mapsto> 2] (buf :: int simpleBuffer))
     = Inr (Many [1, 2])
   \<and> sample [''b''] (push [''a'' \<mapsto> 3] (push [''a'' \<mapsto> 1, ''b'' \<mapsto> 2] buf))
     = Inl (KeyError ''b'')
   \<and> m (push d buf') = d
   \<and> (k \<in> set ks \<and> d k = None \<longrightarrow> (\<exists>e. sample ks (push d buf') = Inl e))"
proof (intro conjI impI)
  show "sample [''a'', ''b''] (push [''a'' \<mapsto> 1, ''b'' \<mapsto> 2] buf) = Inr (Many [1, 2])"
    by (simp add: sample_def push_def)
  show "sample [''b''] (push [''a'' \<mapsto> 3] (push [''a'' \<mapsto> 1, ''b'' \<mapsto> 2] buf))
          = Inl (KeyError ''b'')"
    by (simp add: sample_def push_def)
  show md: "m (push d buf') = d"
    by (simp add: push_def)
  assume "k \<in> set ks \<and> d k = None"
  then obtain e where "lookup_all d ks = Inl e"
    using lookup_all_missing by blast
  then show "\<exists>e. sample ks (push d buf') = Inl e"
    by (simp add: sample_def md)
qed

theorem buffer_round_trip_witness:
  "sample [''a'', ''b''] (push [''a'' \<mapsto> 1, ''b'' \<mapsto> 2] (simpleBuffer_init :: int simpleBuffer))
     = Inr (Many [1, 2])
   \<and> sample [''b''] (push [''a'' \<mapsto> 3]
        (push [''a'' \<mapsto> 1, ''b'' \<mapsto> 2] (simpleBuffer_init :: int simpleBuffer)))
     = Inl (KeyError ''b'')
   \<and> m (push [''a'' \<mapsto> 3] (simpleBuffer_init :: int simpleBuffer)) = [''a'' \<mapsto> 3]
   \<and> (\<exists>e. sample [''a'', ''b''] (push [''a'' \<mapsto> 3] (simpleBuffer_init :: int simpleBuffer))
          = Inl e)"
  using buffer_round_trip [of "simpleBuffer_init :: int simpleBuffer" "[''a'' \<mapsto> 3::int]"
      "simpleBuffer_init :: int simpleBuffer" "''b''" "[''a'', ''b'']"]
  by simp

section \<open>Results about the delta-rule agent\<close>

lemma length_transform: "length (transform p_trans params) = min 2 (length params)"
  by (simp add: transform_def p_trans_def)

lemma transform_take: "transform p_trans (take 2 params) = transform p_trans params"
proof (cases params)
  case Nil
  then show ?thesis by simp
next
  case (Cons a rest)
  then show ?thesis
    by (cases rest) (simp_all add: transform_def p_trans_def)
qed

text \<open>
  Claim C3, as stated: a raw parameter vector whose length differs from the declared
  parameter count makes \<^verbatim>\<open>load_params\<close> fail. It does not: of the vector \<open>[0, 0, 7]\<close>
  the first two entries are loaded and the third is ignored, since \<^verbatim>\<open>zip\<close> stops at
  the shorter list.
\<close>

theorem load_params_counterexample:
  "\<not> (\<forall>params (self :: unit RL).
        length params \<noteq> length p_name \<longrightarrow> (\<exists>e. load_params params self = Inl e))"
proof
  assume h: "\<forall>params (self :: unit RL).
               length params \<noteq> length p_name \<longrightarrow> (\<exists>e. load_params params self = Inl e)"
  have "length [0, 0, 7 :: real] \<noteq> length p_name"
    by (simp add: p_name_def)
  with h obtain e where "load_params [0, 0, 7] (blank ()) = Inl e"
    by blast
  then show False
    by (simp add: load_params_def transform_def p_trans_def)
qed

text \<open>
  Claim C3, amended. A vector of fewer than two entries makes \<^verbatim>\<open>load_params\<close> raise
  \<^verbatim>\<open>IndexError\<close>: nothing is padded. A vector of two or more entries is accepted: the
  first entry goes through the sigmoid into \<^verbatim>\<open>alpha\<close>, the second through the clipped
  exponential into \<^verbatim>\<open>beta\<close>, and the result is that of the first two entries alone.
\<close>

theorem load_params_length:
  "(length params < 2 \<longrightarrow> load_params params self = Inl IndexError)
   \<and> (2 \<le> length params \<longrightarrow>
        load_params params self
          = Inr (self\<lparr>alpha := sigmoid (params ! 0), beta := clip_exp (params ! 1)\<rparr>)
        \<and> load_params params self = load_params (take 2 params) self)"
proof (intro conjI impI)
  assume "length params < 2"
  then show "load_params params self = Inl IndexError"
    by (auto simp: load_params_def length_transform Let_def)
next
  assume h: "2 \<le> length params"
  then obtain a b rest where p: "params = a # b # rest"
    by (cases params; cases "tl params") auto
  show "load_params params self
          = Inr (self\<lparr>alpha := sigmoid (params ! 0), beta := clip_exp (params ! 1)\<rparr>)"
    by (simp add: p load_params_def transform_def p_trans_def sigmoid_def)
  show "load_params params self = load_params (take 2 params) self"
    by (simp add: load_params_def transform_take)
qed

theorem load_params_length_witness:
  "load_params [0] (blank ()) = Inl IndexError
   \<and> load_params [0, 0, 7] (blank ())
     = Inr ((blank ())\<lparr>alpha := sigmoid 0, beta := clip_exp 0\<rparr>)
   \<and> load_params [0, 0, 7] (blank ()) = load_params [0, 0] (blank ())"
  using load_params_length [of "[0]" "blank ()"] load_params_length [of "[0, 0, 7]" "blank ()"]
    load_params_length [of "[0, 0]" "blank ()"]
  by simp

lemma RL_new_demo: "RL_new () [0, 0] = Inr demo_agent"
  by (simp add: RL_new_def load_params_def transform_def p_trans_def clip_exp_def np_clip_def
      max_c_def blank_def init_buffer_def init_believes_def init_critic_def demo_agent_def Let_def)

lemma sum_list_softmax: "xs \<noteq> [] \<Longrightarrow> sum_list (softmax xs) = 1"
proof -
  assume ne: "xs \<noteq> []"
  have nn: "0 \<le> sum_list (map exp ys)" for ys :: "real list"
    by (induction ys) simp_all
  obtain a rest where "xs = a # rest"
    using ne by (cases xs) auto
  then have pos: "0 < sum_list (map exp xs)"
    using nn [of rest] by (simp add: add_pos_nonneg)
  have dv: "sum_list (map (\<lambda>x. exp x / c) ys) = sum_list (map exp ys) / c"
    for c :: real and ys
    by (induction ys) (simp_all add: add_divide_distrib)
  have "sum_list (softmax xs) = sum_list (map exp xs) / sum_list (map exp xs)"
    unfolding softmax_def by (rule dv)
  with pos show ?thesis by simp
qed

lemma learn_result:
  assumes "m (mem self) ''s'' = Some (Num sv)" "m (mem self) ''t_type'' = Some t"
    "m (mem self) ''f_type'' = Some f"
  shows "learn self = Inr (self\<lparr>o' := Some (if sv - p1 self > 0 then ''pos'' else ''neg''),
            p1 := p1 self + alpha self * (sv - p1 self),
            p_S := [1 - (p1 self + alpha self * (sv - p1 self)),
                    p1 self + alpha self * (sv - p1 self)]\<rparr>)"
  using assms by (simp add: learn_def learn_critic_def sample_def Let_def)

text \<open>
  Claim C7. An \<^verbatim>\<open>RL\<close> agent with native parameters \<^verbatim>\<open>alpha = 0.5\<close>, \<^verbatim>\<open>beta = 1.0\<close> and
  belief pair \<open>(0.5, 0.5)\<close>, whose buffer holds the outcome \<^verbatim>\<open>s = 1\<close> and the keys
  \<^verbatim>\<open>t_type\<close> and \<^verbatim>\<open>f_type\<close>: one \<^verbatim>\<open>learn()\<close> succeeds and leaves the belief pair
  \<open>(0.25, 0.75)\<close>; \<^verbatim>\<open>policy([1, 1])\<close> then returns a distribution of two entries whose sum
  is within \<open>1e-9\<close> of 1.
\<close>

theorem delta_rule_scenario:
  assumes "alpha self = 1 / 2" and "beta self = 1" and "p1 self = 1 / 2"
    and "p_S self = [1 / 2, 1 / 2]"
    and "m (mem self) ''s'' = Some (Num 1)"
    and "m (mem self) ''t_type'' = Some t" and "m (mem self) ''f_type'' = Some f"
  shows "\<exists>self' d self''. learn self = Inr self' \<and> p_S self' = [1 / 4, 3 / 4]
           \<and> policy [1, 1] self' = Inr (d, self'') \<and> length d = 2
           \<and> \<bar>sum_list d - 1\<bar> \<le> 1 / 10 ^ 9"
proof -
  define self' where "self' = self\<lparr>o' := Some ''pos'', p1 := 3 / 4, p_S := [1 / 4, 3 / 4]\<rparr>"
  have l: "learn self = Inr self'"
    using learn_result [OF assms(5,6,7)] assms(1,3) by (simp add: self'_def)
  have ps: "p_S self' = [1 / 4, 3 / 4]"
    by (simp add: self'_def)
  have b: "beta self' = 1"
    using assms(2) by (simp add: self'_def)
  define d where "d = softmax [1 / 4, 3 / 4 :: real]"
  have p: "policy [1, 1] self' = Inr (d, self'\<lparr>pi' := Some d\<rparr>)"
    by (simp add: policy_def np_mul_def ps b d_def Let_def)
  have len: "length d = 2"
    by (simp add: d_def softmax_def)
  have "sum_list d = 1"
    unfolding d_def by (rule sum_list_softmax) simp
  then have "\<bar>sum_list d - 1\<bar> \<le> 1 / 10 ^ 9"
    by simp
  with l ps p len show ?thesis by blast
qed

theorem delta_rule_scenario_witness:
  "RL_new () [0, 0] = Inr demo_agent \<and> alpha demo_agent = 1 / 2 \<and> beta demo_agent = 1
   \<and> p1 demo_agent = 1 / 2 \<and> p_S demo_agent = [1 / 2, 1 / 2]
   \<and> (\<exists>self' d self''. learn (demo_push (Num 1) demo_agent) = Inr self'
         \<and> p_S self' = [1 / 4, 3 / 4]
         \<and> policy [1, 1] self' = Inr (d, self'') \<and> length d = 2
         \<and> \<bar>sum_list d - 1\<bar> \<le> 1 / 10 ^ 9)"
proof -
  have "\<exists>self' d self''. learn (demo_push (Num 1) demo_agent) = Inr self'
           \<and> p_S self' = [1 / 4, 3 / 4]
           \<and> policy [1, 1] self' = Inr (d, self'') \<and> length d = 2
           \<and> \<bar>sum_list d - 1\<bar> \<le> 1 / 10 ^ 9"
    by (rule delta_rule_scenario [where t = "Str ''sta''" and f = "Str ''gain''"])
      (simp_all add: demo_push_def push_def demo_agent_def)
  then show ?thesis
    using RL_new_demo by (simp add: demo_agent_def)
qed

text \<open>
  Claim C8. After the belief initialisation (\<^verbatim>\<open>_init_critic\<close>, and so after the
  constructor) and after every \<^verbatim>\<open>learn()\<close> that returns, whatever the agent and its
  buffer were before, the belief state \<^verbatim>\<open>p_S\<close> is the pair \<open>(1 - p1, p1)\<close>, and its two
  components sum to exactly 1.
\<close>

theorem belief_pair:
  "p_S (init_critic self) = [1 - p1 (init_critic self), p1 (init_critic self)]
   \<and> sum_list (p_S (init_critic self)) = 1
   \<and> (RL_new n params = Inr self0 \<longrightarrow>
        p_S self0 = [1 - p1 self0, p1 self0] \<and> sum_list (p_S self0) = 1)
   \<and> (learn self = Inr self' \<longrightarrow>
        p_S self' = [1 - p1 self', p1 self'] \<and> sum_list (p_S self') = 1)"
proof (intro conjI impI)
  show "p_S (init_critic self) = [1 - p1 (init_critic self), p1 (init_critic self)]"
    by (simp add: init_critic_def)
  show "sum_list (p_S (init_critic self)) = 1"
    by (simp add: init_critic_def)
next
  assume "RL_new n params = Inr self0"
  then obtain s1 where s: "self0 = init_buffer (init_critic s1)"
    by (auto simp: RL_new_def init_believes_def split: sum.splits)
  show "p_S self0 = [1 - p1 self0, p1 self0]"
    by (simp add: s init_buffer_def init_critic_def)
  show "sum_list (p_S self0) = 1"
    by (simp add: s init_buffer_def init_critic_def)
next
  assume l: "learn self = Inr self'"
  then show "p_S self' = [1 - p1 self', p1 self']"
    by (auto simp: learn_def learn_critic_def Let_def
        split: sum.splits sampled.splits list.splits val.splits)
  then show "sum_list (p_S self') = 1"
    by simp
qed

theorem belief_pair_witness:
  "RL_new () [0, 0] = Inr demo_agent
   \<and> p_S demo_agent = [1 - p1 demo_agent, p1 demo_agent] \<and> sum_list (p_S demo_agent) = 1
   \<and> learn (demo_push (Num 0) demo_agent)
       = Inr ((demo_push (Num 0) demo_agent)\<lparr>o' := Some ''neg'', p1 := 1 / 4,
                p_S := [3 / 4, 1 / 4]\<rparr>)
   \<and> sum_list [3 / 4, 1 / 4 :: real] = 1"
proof -
  have l: "learn (demo_push (Num 0) demo_agent)
       = Inr ((demo_push (Num 0) demo_agent)\<lparr>o' := Some ''neg'', p1 := 1 / 4,
                p_S := [3 / 4, 1 / 4]\<rparr>)"
    by (simp add: learn_def learn_critic_def sample_def demo_push_def push_def demo_agent_def
        Let_def)
  show ?thesis
    using belief_pair [where n = "()" and params = "[0, 0]" and ?self0.0 = demo_agent
        and self = "demo_push (Num 0) demo_agent"
        and self' = "(demo_push (Num 0) demo_agent)\<lparr>o' := Some ''neg'', p1 := 1 / 4,
          p_S := [3 / 4, 1 / 4]\<rparr>"] RL_new_demo l
    by simp
qed

section \<open>Results about the prior\<close>

lemma floor_logpdf_ge: "- max_c \<le> floor_logpdf x"
  by (cases x) (simp_all add: floor_logpdf_def)

lemma logprior_loop_sum:
  "logprior_loop xs lpr = lpr + (\<Sum>(pri, param) \<leftarrow> xs. floor_logpdf (pri param))"
  by (induction xs arbitrary: lpr) auto

lemma floored_sum_ge:
  "- max_c * real (length xs) \<le> (\<Sum>(pri, param) \<leftarrow> xs. floor_logpdf (pri param))"
proof (induction xs)
  case Nil
  then show ?case by simp
next
  case (Cons x xs)
  obtain pri param where x: "x = (pri, param)"
    by (cases x)
  have "- max_c \<le> floor_logpdf (pri param)"
    by (rule floor_logpdf_ge)
  with Cons show ?case
    by (simp add: x algebra_simps)
qed

text \<open>
  Claim C6. For every parameter vector and sequence of priors, \<^verbatim>\<open>logprior\<close> is the sum
  over the positions of \<open>max (log-density, -1e13)\<close>, a log-density of minus infinity
  giving \<open>-1e13\<close>; every summand is at least \<open>-1e13\<close>, so for aligned sequences the result
  is at least \<open>-1e13\<close> times the parameter count. \<^verbatim>\<open>logprior\<close> has no raising branch: it
  is a total function into the reals.
\<close>

theorem logprior_floored:
  "logprior params p_priors
     = (\<Sum>(pri, param) \<leftarrow> zip p_priors params. floor_logpdf (pri param))
   \<and> floor_logpdf NegInf = - (10 ^ 13)
   \<and> floor_logpdf (Fin r) = max r (- (10 ^ 13))
   \<and> - (10 ^ 13) \<le> floor_logpdf x
   \<and> (length p_priors = length params \<longrightarrow>
        - (10 ^ 13) * real (length params) \<le> logprior params p_priors)"
proof (intro conjI impI)
  show s: "logprior params p_priors
             = (\<Sum>(pri, param) \<leftarrow> zip p_priors params. floor_logpdf (pri param))"
    by (simp add: logprior_def logprior_loop_sum)
  show "floor_logpdf NegInf = - (10 ^ 13)"
    by (simp add: floor_logpdf_def max_c_def)
  show "floor_logpdf (Fin r) = max r (- (10 ^ 13))"
    by (simp add: floor_logpdf_def max_c_def)
  show "- (10 ^ 13) \<le> floor_logpdf x"
    using floor_logpdf_ge [of x] by (simp add: max_c_def)
  assume "length p_priors = length params"
  then have "length (zip p_priors params) = length params"
    by simp
  then show "- (10 ^ 13) * real (length params) \<le> logprior params p_priors"
    using floored_sum_ge [of "zip p_priors params"] unfolding s by (simp add: max_c_def)
qed

theorem logprior_floored_witness:
  "logprior [-1, 2] [positive_prior, positive_prior] = - (10 ^ 13) - 2
   \<and> length [positive_prior, positive_prior] = length [-1, 2 :: real]
   \<and> - (10 ^ 13) * real (length [-1, 2 :: real])
       \<le> logprior [-1, 2] [positive_prior, positive_prior]"
  using logprior_floored [of "[-1, 2]" "[positive_prior, positive_prior]"]
  by (simp add: positive_prior_def floor_logpdf_def max_c_def)

section \<open>Results about the likelihood\<close>





lemma demo_wrapper_fields:
  "agent demo_wrapper = RL_class" "env_fn demo_wrapper = demo_env"
  "use_hook demo_wrapper = False" "insights demo_wrapper = []"
  by (simp_all add: demo_wrapper_def wrapper_init_def)

lemma demo_env_fields:
  "env_make demo_env = (\<lambda>block_type. Inr ())" "env_voi demo_env = [''s'']"
  "eval_fn demo_env = demo_eval_fn" "sim_fn demo_env = demo_sim_fn"
  by (simp_all add: demo_env_def)



lemma iterrows_demo_block:
  "iterrows demo_block =
     [(0, [(''block_type'', Txt ''sta''), (''s'', Flt (Finite 1))]),
      (1, [(''block_type'', Txt ''sta''), (''s'', Flt (Finite 0))])]"
  by (simp add: iterrows_def row_at_def demo_block_def numeral_2_eq_2)



lemma demo_eval_fn_step:
  "map_of r ''s'' = Some (Flt (Finite sv)) \<Longrightarrow>
   demo_eval_fn r env subj =
     Inr (Finite (p1 subj + alpha subj * (sv - p1 subj) - 1), env,
          (demo_push (Num sv) subj)\<lparr>o' := Some (if sv - p1 subj > 0 then ''pos'' else ''neg''),
            p1 := p1 subj + alpha subj * (sv - p1 subj),
            p_S := [1 - (p1 subj + alpha subj * (sv - p1 subj)),
                    p1 subj + alpha subj * (sv - p1 subj)]\<rparr>)"
  by (simp add: demo_eval_fn_def learn_def learn_critic_def sample_def demo_push_def push_def Let_def)





text \<open>Scoring calls are made on a block exactly when its set-up succeeds.\<close>

lemma trial_scores_nonempty: "rows \<noteq> [] \<Longrightarrow> trial_scores E rows env subj \<noteq> []"
  by (cases rows) (auto split: sum.splits)

lemma scoring_calls_made:
  "scoring_calls self params block_data \<noteq> []
     \<longleftrightarrow> (\<exists>env subj. init_subject self block_data params = Inr (env, subj))"
proof
  assume "scoring_calls self params block_data \<noteq> []"
  then show "\<exists>env subj. init_subject self block_data params = Inr (env, subj)"
    by (auto simp: scoring_calls_def split: sum.splits)
next
  assume "\<exists>env subj. init_subject self block_data params = Inr (env, subj)"
  then obtain env subj where i: "init_subject self block_data params = Inr (env, subj)"
    by blast
  then have "0 < nrows block_data"
    by (auto simp: init_subject_def loc_def split: if_splits)
  then have "iterrows block_data \<noteq> []"
    by (simp add: iterrows_def)
  then show "scoring_calls self params block_data \<noteq> []"
    by (simp add: scoring_calls_def i trial_scores_nonempty)
qed



section \<open>Results about the evaluation\<close>

lemma demo_wrapper_voi_fields:
  "agent demo_wrapper_voi = RL_voi_class" "env_fn demo_wrapper_voi = demo_env"
  "use_hook demo_wrapper_voi = False" "insights demo_wrapper_voi = []"
  by (simp_all add: demo_wrapper_voi_def wrapper_init_def)

lemma init_subject_demo_voi:
  "init_subject demo_wrapper_voi demo_block [0, 0] = Inr ((), demo_agent)"
  by (simp add: init_subject_def demo_wrapper_voi_fields demo_env_fields loc_def demo_block_def
      RL_voi_class_def RL_new_demo)

lemma eval_block_demo_voi:
  "eval_block demo_wrapper_voi demo_block [0, 0] =
     Inr \<lparr>nrows = 2, columns =
       [(''block_type'', [Txt ''sta'', Txt ''sta'']),
        (''s'', [Flt (Finite 1), Flt (Finite 0)]),
        (''ll'', [Flt (Finite (- (1 / 4))), Flt (Finite (- (5 / 8)))])]\<rparr>"
  apply (simp add: eval_block_def init_subject_demo_voi iterrows_demo_block
      demo_wrapper_voi_fields demo_env_fields RL_voi_class_def Let_def)
  apply (simp add: demo_eval_fn_step demo_agent_def demo_push_def demo_env_fields nan_frame_def
      set_loc_def column_names_def dropna_all_def concat_cols_def demo_block_def numeral_2_eq_2)
  done

lemma demo_sim_fn_step:
  "length (p_S subj) = 2 \<Longrightarrow>
   demo_sim_fn r env subj rng =
     Inr ([Flt (Finite 1)], env,
          (demo_push (Num 1)
             (subj\<lparr>pi' := Some (softmax (map (\<lambda>(x, y). x * y)
                        (zip (map (\<lambda>x. beta subj * x) (p_S subj)) [1, 1])))\<rparr>))
            \<lparr>o' := Some (if 1 - p1 subj > 0 then ''pos'' else ''neg''),
              p1 := p1 subj + alpha subj * (1 - p1 subj),
              p_S := [1 - (p1 subj + alpha subj * (1 - p1 subj)),
                      p1 subj + alpha subj * (1 - p1 subj)]\<rparr>,
          Suc rng)"
  by (simp add: demo_sim_fn_def policy_def np_mul_def learn_def learn_critic_def sample_def
      demo_push_def push_def Let_def)

lemma strip_demo_block:
  "strip_voi [''s''] demo_block
     = \<lparr>nrows = 2, columns = [(''block_type'', [Txt ''sta'', Txt ''sta''])]\<rparr>"
  by (simp add: strip_voi_def demo_block_def column_names_def drop_column_def)

lemma iterrows_stripped:
  "iterrows \<lparr>nrows = 2, columns = [(''block_type'', [Txt ''sta'', Txt ''sta''])]\<rparr>
     = [(0, [(''block_type'', Txt ''sta'')]), (1, [(''block_type'', Txt ''sta'')])]"
  by (simp add: iterrows_def row_at_def numeral_2_eq_2)

lemma sim_block_demo_voi:
  "sim_block demo_wrapper_voi (strip_voi [''s''] demo_block) [0, 0] 0 =
     Inr (\<lparr>nrows = 2, columns =
            [(''block_type'', [Txt ''sta'', Txt ''sta'']),
             (''s'', [Flt (Finite 1), Flt (Finite 1)]),
             (''pS1'', [Flt (Finite (3 / 4)), Flt (Finite (7 / 8))])]\<rparr>,
          2, demo_wrapper_voi)"
  apply (simp add: strip_demo_block sim_block_def init_subject_def loc_def
      demo_wrapper_voi_fields demo_env_fields RL_voi_class_def RL_new_demo iterrows_stripped
      Let_def)
  apply (simp add: demo_sim_fn_step demo_agent_def demo_push_def RL_getter_def get_pS1_def
      demo_env_fields enumerate_list_def nan_frame_def set_loc_def column_names_def
      dropna_all_def concat_cols_def numeral_2_eq_2)
  apply (simp add: demo_wrapper_voi_def wrapper_init_def)
  done

text \<open>
  Claim C2. \<^verbatim>\<open>eval\<close> should record, per trial, the log-likelihood contribution and
  every quantity of the agent's \<^verbatim>\<open>voi\<close> manifest. \<^verbatim>\<open>eval_block\<close> allocates a column for
  each name of the manifest and never writes it. For an agent that declares \<^verbatim>\<open>pS1\<close>,
  on a block of two trials, its output is the trial data and the column \<^verbatim>\<open>ll\<close>, with no
  column \<^verbatim>\<open>pS1\<close>; \<^verbatim>\<open>sim_block\<close>, with the same agent on the same block, does return
  the column \<^verbatim>\<open>pS1\<close> with one value per trial.
\<close>

theorem eval_block_omits_voi:
  "voi (agent demo_wrapper_voi) = [''pS1'']
   \<and> eval_block demo_wrapper_voi demo_block [0, 0] =
       Inr \<lparr>nrows = 2, columns =
         [(''block_type'', [Txt ''sta'', Txt ''sta'']),
          (''s'', [Flt (Finite 1), Flt (Finite 0)]),
          (''ll'', [Flt (Finite (- (1 / 4))), Flt (Finite (- (5 / 8)))])]\<rparr>
   \<and> \<not> (\<exists>out. eval_block demo_wrapper_voi demo_block [0, 0] = Inr out
            \<and> ''pS1'' \<in> set (column_names out))
   \<and> sim_block demo_wrapper_voi (strip_voi [''s''] demo_block) [0, 0] 0 =
       Inr (\<lparr>nrows = 2, columns =
              [(''block_type'', [Txt ''sta'', Txt ''sta'']),
               (''s'', [Flt (Finite 1), Flt (Finite 1)]),
               (''pS1'', [Flt (Finite (3 / 4)), Flt (Finite (7 / 8))])]\<rparr>,
            2, demo_wrapper_voi)"
  by (simp add: eval_block_demo_voi sim_block_demo_voi demo_wrapper_voi_fields RL_voi_class_def
      column_names_def)

section \<open>Results about the hooks of the simulation\<close>

lemma extends_by_refl: "extends_by 0 p p"
  by (simp add: extends_by_def)

lemma extends_by_trans:
  "extends_by a x y \<Longrightarrow> extends_by b y z \<Longrightarrow> extends_by (a + b) x z"
proof -
  assume xy: "extends_by a x y" and yz: "extends_by b y z"
  have l: "length (snd x) \<le> length (snd y)"
    using xy by (simp add: extends_by_def)
  have "take (length (snd x)) (snd z) = take (length (snd x)) (take (length (snd y)) (snd z))"
    using l by (simp add: min_def)
  also have "\<dots> = snd x"
    using xy yz by (simp add: extends_by_def)
  finally show ?thesis
    using xy yz by (simp add: extends_by_def)
qed

lemma logs_grown_refl: "logs_grown 0 ins ins"
  by (simp add: logs_grown_def list_all2_refl extends_by_refl)

lemma logs_grown_trans:
  "logs_grown a x y \<Longrightarrow> logs_grown b y z \<Longrightarrow> logs_grown (a + b) x z"
  unfolding logs_grown_def
proof -
  assume "list_all2 (extends_by a) x y" and "list_all2 (extends_by b) y z"
  with extends_by_trans show "list_all2 (extends_by (a + b)) x z"
    by (rule list_all2_trans)
qed

lemma logs_grown_keys: "logs_grown n ins ins' \<Longrightarrow> map fst ins' = map fst ins"
  unfolding logs_grown_def
  by (induction rule: list_all2_induct) (simp_all add: extends_by_def)

lemma logs_grown_lookup:
  "logs_grown n ins ins' \<Longrightarrow> map_of ins k = Some l \<Longrightarrow>
   \<exists>l'. map_of ins' k = Some l' \<and> length l' = length l + n \<and> take (length l) l' = l"
  unfolding logs_grown_def
proof (induction rule: list_all2_induct)
  case Nil
  then show ?case by simp
next
  case (Cons x xs y ys)
  then show ?case
    by (cases x; cases y) (auto simp: extends_by_def split: if_splits)
qed

lemma run_hooks_fold:
  "run_hooks A ks subj ins = Inr ins' \<Longrightarrow>
   \<exists>xs. length xs = length ks
     \<and> ins' = fold (\<lambda>(k, x) d. AList.map_entry k (\<lambda>l. l @ [x]) d) (zip ks xs) ins"
proof (induction ks arbitrary: ins)
  case Nil
  then show ?case by simp
next
  case (Cons k ks)
  from Cons.prems obtain x where g: "getter A k subj = Inr x"
    and r: "run_hooks A ks subj (AList.map_entry k (\<lambda>l. l @ [x]) ins) = Inr ins'"
    by (auto split: sum.splits)
  from Cons.IH [OF r] obtain xs where "length xs = length ks"
    and "ins' = fold (\<lambda>(k, x) d. AList.map_entry k (\<lambda>l. l @ [x]) d) (zip ks xs)
                  (AList.map_entry k (\<lambda>l. l @ [x]) ins)"
    by blast
  then have "length (x # xs) = length (k # ks)
     \<and> ins' = fold (\<lambda>(k, x) d. AList.map_entry k (\<lambda>l. l @ [x]) d) (zip (k # ks) (x # xs)) ins"
    by simp
  then show ?case by blast
qed

lemma fold_map_entry_Cons:
  "fst p \<notin> set ks \<Longrightarrow>
   fold (\<lambda>(k, x) d. AList.map_entry k (\<lambda>l. l @ [x]) d) (zip ks xs) (p # ps)
     = p # fold (\<lambda>(k, x) d. AList.map_entry k (\<lambda>l. l @ [x]) d) (zip ks xs) ps"
proof (induction ks arbitrary: xs ps)
  case Nil
  then show ?case by simp
next
  case (Cons k ks)
  show ?case
  proof (cases xs)
    case Nil
    then show ?thesis by simp
  next
    case (Cons x xs')
    have "AList.map_entry k (\<lambda>l. l @ [x]) (p # ps) = p # AList.map_entry k (\<lambda>l. l @ [x]) ps"
      using Cons.prems by (cases p) auto
    then show ?thesis
      using Cons.IH [of xs' "AList.map_entry k (\<lambda>l. l @ [x]) ps"] Cons.prems
      by (simp add: Cons)
  qed
qed

lemma fold_map_entry_own_keys:
  "distinct (map fst ins) \<Longrightarrow> length xs = length ins \<Longrightarrow>
   fold (\<lambda>(k, x) d. AList.map_entry k (\<lambda>l. l @ [x]) d) (zip (map fst ins) xs) ins
     = map (\<lambda>((k, l), x). (k, l @ [x])) (zip ins xs)"
proof (induction ins arbitrary: xs)
  case Nil
  then show ?case by simp
next
  case (Cons p ps)
  obtain k l where p: "p = (k, l)" by (cases p)
  obtain x xs' where xs: "xs = x # xs'"
    using Cons.prems(2) by (cases xs) auto
  have nk: "fst (k, l @ [x]) \<notin> set (map fst ps)"
    using Cons.prems(1) by (simp add: p)
  have "fold (\<lambda>(k, x) d. AList.map_entry k (\<lambda>l. l @ [x]) d) (zip (map fst ps) xs')
          ((k, l @ [x]) # ps)
        = (k, l @ [x]) # fold (\<lambda>(k, x) d. AList.map_entry k (\<lambda>l. l @ [x]) d)
             (zip (map fst ps) xs') ps"
    using nk by (rule fold_map_entry_Cons)
  moreover have "fold (\<lambda>(k, x) d. AList.map_entry k (\<lambda>l. l @ [x]) d) (zip (map fst ps) xs') ps
        = map (\<lambda>((k, l), x). (k, l @ [x])) (zip ps xs')"
    using Cons.IH [of xs'] Cons.prems by (simp add: xs)
  ultimately show ?case
    by (simp add: p xs)
qed

lemma logs_grown_zip:
  "length xs = length ins \<Longrightarrow> logs_grown 1 ins (map (\<lambda>((k, l), x). (k, l @ [x])) (zip ins xs))"
  unfolding logs_grown_def
  by (induction ins xs rule: list_induct2') (auto simp: extends_by_def)

lemma run_hooks_grown:
  "distinct (map fst ins) \<Longrightarrow> run_hooks A (map fst ins) subj ins = Inr ins' \<Longrightarrow>
   logs_grown 1 ins ins'"
proof -
  assume d: "distinct (map fst ins)" and r: "run_hooks A (map fst ins) subj ins = Inr ins'"
  from run_hooks_fold [OF r] obtain xs where l: "length xs = length ins"
    and i: "ins' = fold (\<lambda>(k, x) d. AList.map_entry k (\<lambda>l. l @ [x]) d) (zip (map fst ins) xs) ins"
    by auto
  show ?thesis
    unfolding i fold_map_entry_own_keys [OF d l] using l by (rule logs_grown_zip)
qed

lemma sim_rows_grown:
  "distinct (map fst ins) \<Longrightarrow>
   sim_rows A E True rows pred_data env subj rng ins = Inr (pred_data', rng', ins') \<Longrightarrow>
   logs_grown (length rows) ins ins'"
proof (induction rows arbitrary: pred_data env subj rng ins)
  case Nil
  then show ?case by (simp add: logs_grown_refl)
next
  case (Cons a rows)
  obtain t r where a: "a = (t, r)" by (cases a)
  from Cons.prems(2) obtain subj_voi env1 subj1 rng1 pred1 ins1 pred2 where
    h: "run_hooks A (map fst ins) subj1 ins = Inr ins1"
    and rec: "sim_rows A E True rows pred2 env1 subj1 rng1 ins1 = Inr (pred_data', rng', ins')"
    by (auto simp: a split: sum.splits prod.splits)
  have g1: "logs_grown 1 ins ins1"
    using Cons.prems(1) h by (rule run_hooks_grown)
  then have "distinct (map fst ins1)"
    using Cons.prems(1) by (simp add: logs_grown_keys)
  then have "logs_grown (length rows) ins1 ins'"
    using rec by (rule Cons.IH)
  with g1 have "logs_grown (1 + length rows) ins ins'"
    by (rule logs_grown_trans)
  then show ?case by simp
qed

lemma sim_rows_no_hook:
  "sim_rows A E False rows pred_data env subj rng ins = Inr (pred_data', rng', ins') \<Longrightarrow>
   ins' = ins"
proof (induction rows arbitrary: pred_data env subj rng)
  case Nil
  then show ?case by simp
next
  case (Cons a rows)
  obtain t r where a: "a = (t, r)" by (cases a)
  from Cons.prems obtain env1 subj1 rng1 pred2 where
    "sim_rows A E False rows pred2 env1 subj1 rng1 ins = Inr (pred_data', rng', ins')"
    by (auto simp: a split: sum.splits prod.splits)
  then show ?case by (rule Cons.IH)
qed

lemma sim_block_fields:
  "sim_block self block_data params rng = Inr (out, rng', self') \<Longrightarrow>
   use_hook self' = use_hook self \<and> agent self' = agent self \<and> env_fn self' = env_fn self"
  by (auto simp: sim_block_def Let_def split: sum.splits prod.splits)

lemma sim_block_grown:
  "use_hook self \<Longrightarrow> distinct (map fst (insights self)) \<Longrightarrow>
   sim_block self block_data params rng = Inr (out, rng', self') \<Longrightarrow>
   logs_grown (nrows block_data) (insights self) (insights self')"
proof -
  assume u: "use_hook self" and d: "distinct (map fst (insights self))"
    and s: "sim_block self block_data params rng = Inr (out, rng', self')"
  from s obtain env subj pred' where
    "sim_rows (agent self) (env_fn self) (use_hook self) (iterrows block_data)
       (nan_frame (nrows block_data) (env_voi (env_fn self) @ voi (agent self)))
       env subj rng (insights self) = Inr (pred', rng', insights self')"
    by (auto simp: sim_block_def Let_def split: sum.splits prod.splits)
  then have "logs_grown (length (iterrows block_data)) (insights self) (insights self')"
    using d u sim_rows_grown by metis
  then show ?thesis by (simp add: iterrows_def)
qed

lemma nrows_strip_voi: "nrows (strip_voi vs b) = nrows b"
proof -
  have "nrows (fold (\<lambda>v bd. if v \<in> set (column_names bd) then drop_column v bd else bd) vs b)
          = nrows b"
    by (induction vs arbitrary: b) (simp_all add: drop_column_def)
  then show ?thesis by (simp add: strip_voi_def)
qed

lemma sim_blocks_grown:
  "use_hook self \<Longrightarrow> distinct (map fst (insights self)) \<Longrightarrow>
   sim_blocks self bs params rng = Inr (outs, rng', self') \<Longrightarrow>
   use_hook self' \<and> logs_grown (sum_list (map nrows bs)) (insights self) (insights self')"
proof (induction bs arbitrary: self rng outs)
  case Nil
  then show ?case by (simp add: logs_grown_refl)
next
  case (Cons b bs)
  from Cons.prems(3) obtain out rng1 self1 outs1 where
    sb: "sim_block self (strip_voi (env_voi (env_fn self)) b) params rng = Inr (out, rng1, self1)"
    and rec: "sim_blocks self1 bs params rng1 = Inr (outs1, rng', self')"
    by (auto split: sum.splits prod.splits)
  have g1: "logs_grown (nrows b) (insights self) (insights self1)"
    using sim_block_grown [OF Cons.prems(1,2) sb] by (simp add: nrows_strip_voi)
  have u1: "use_hook self1"
    using sim_block_fields [OF sb] Cons.prems(1) by simp
  have d1: "distinct (map fst (insights self1))"
    using g1 Cons.prems(2) by (simp add: logs_grown_keys)
  from Cons.IH [OF u1 d1 rec]
  have u': "use_hook self'"
    and g2: "logs_grown (sum_list (map nrows bs)) (insights self1) (insights self')"
    by simp_all
  from g1 g2 have "logs_grown (nrows b + sum_list (map nrows bs)) (insights self) (insights self')"
    by (rule logs_grown_trans)
  with u' show ?case by simp
qed

lemma sim_grown:
  "use_hook self \<Longrightarrow> distinct (map fst (insights self)) \<Longrightarrow>
   sim self data params rng = Inr (out, rng', self') \<Longrightarrow>
   use_hook self' \<and> logs_grown (n_trials data) (insights self) (insights self')"
proof -
  assume u: "use_hook self" and d: "distinct (map fst (insights self))"
    and s: "sim self data params rng = Inr (out, rng', self')"
  from s obtain outs where "sim_blocks self (map snd data) params rng = Inr (outs, rng', self')"
    by (auto simp: sim_def split: sum.splits prod.splits)
  from sim_blocks_grown [OF u d this]
  have "use_hook self' \<and> logs_grown (sum_list (map nrows (map snd data))) (insights self) (insights self')" .
  moreover have "sum_list (map nrows (map snd data)) = n_trials data"
    by (simp add: n_trials_def comp_def case_prod_unfold)
  ultimately show ?thesis by simp
qed

lemma fold_update_lookup:
  "map_of (fold (\<lambda>k d. AList.update k [] d) args d0) k
     = (if k \<in> set args then Some [] else map_of d0 k)"
  by (induction args arbitrary: d0) (auto simp: update_conv')

lemma fold_update_distinct:
  "distinct (map fst d0) \<Longrightarrow> distinct (map fst (fold (\<lambda>k d. AList.update k [] d) args d0))"
  by (induction args arbitrary: d0) (simp_all add: distinct_update)

lemma register_hooks_fresh:
  "use_hook (register_hooks names self)
   \<and> distinct (map fst (insights (register_hooks names self)))
   \<and> map_of (insights (register_hooks names self)) k = (if k \<in> set names then Some [] else None)"
  using fold_update_distinct [of "[]" names]
  by (simp add: register_hooks_def fold_update_lookup)

lemma two_sims_double:
  assumes s1: "sim (register_hooks names self) data params rng = Inr (out1, rng1, self1)"
    and s2: "sim self1 data params rng1 = Inr (out2, rng2, self2)"
    and k: "k \<in> set names"
  shows "\<exists>l. map_of (insights self2) k = Some l \<and> length l = 2 * n_trials data"
proof -
  let ?w = "register_hooks names self"
  have u0: "use_hook ?w" and d0: "distinct (map fst (insights ?w))"
    and m0: "map_of (insights ?w) k = Some []"
    using register_hooks_fresh [of names self k] k by simp_all
  from sim_grown [OF u0 d0 s1]
  have u1: "use_hook self1" and g1: "logs_grown (n_trials data) (insights ?w) (insights self1)"
    by simp_all
  have d1: "distinct (map fst (insights self1))"
    using g1 d0 by (simp add: logs_grown_keys)
  from sim_grown [OF u1 d1 s2]
  have g2: "logs_grown (n_trials data) (insights self1) (insights self2)"
    by simp
  from g1 g2 have "logs_grown (n_trials data + n_trials data) (insights ?w) (insights self2)"
    by (rule logs_grown_trans)
  from logs_grown_lookup [OF this m0] show ?thesis
    by auto
qed

lemma sim_block_demo:
  "use_hook w \<Longrightarrow> agent w = RL_class \<Longrightarrow> env_fn w = demo_env \<Longrightarrow> insights w = [(''pS1'', l)] \<Longrightarrow>
   sim_block w \<lparr>nrows = 2, columns = [(''block_type'', [Txt ''sta'', Txt ''sta''])]\<rparr>
       [0, 0] rng
     = Inr (demo_sim_out, Suc (Suc rng),
            w\<lparr>insights := [(''pS1'', l @ [Flt (Finite (3 / 4)), Flt (Finite (7 / 8))])]\<rparr>)"
  apply (simp add: sim_block_def init_subject_def loc_def demo_env_fields RL_class_def RL_new_demo
      iterrows_stripped Let_def)
  apply (simp add: demo_sim_fn_step demo_agent_def demo_push_def RL_getter_def get_pS1_def
      demo_env_fields enumerate_list_def nan_frame_def set_loc_def column_names_def dropna_all_def concat_cols_def
      demo_sim_out_def numeral_2_eq_2)
  done

lemma sim_demo:
  "use_hook w \<Longrightarrow> agent w = RL_class \<Longrightarrow> env_fn w = demo_env \<Longrightarrow> insights w = [(''pS1'', l)] \<Longrightarrow>
   sim w [(''b1'', demo_block)] [0, 0] rng
     = Inr (demo_sim_out, Suc (Suc rng),
            w\<lparr>insights := [(''pS1'', l @ [Flt (Finite (3 / 4)), Flt (Finite (7 / 8))])]\<rparr>)"
  by (simp add: sim_def demo_env_fields strip_demo_block sim_block_demo pd_concat_def
      demo_sim_out_def column_names_def first_occurrences_def)

lemma hooked_wrapper_fields:
  "use_hook hooked_wrapper" "agent hooked_wrapper = RL_class" "env_fn hooked_wrapper = demo_env"
  "insights hooked_wrapper = [(''pS1'', [])]"
  by (simp_all add: hooked_wrapper_def register_hooks_def demo_wrapper_fields)

lemma sim_hooked_first:
  "sim hooked_wrapper demo_data [0, 0] 0
     = Inr (demo_sim_out, 2,
            hooked_wrapper\<lparr>insights := [(''pS1'', [Flt (Finite (3 / 4)), Flt (Finite (7 / 8))])]\<rparr>)"
  using sim_demo [of hooked_wrapper "[]" 0]
  by (simp add: hooked_wrapper_fields demo_data_def numeral_2_eq_2)

lemma sim_hooked_second:
  "sim (hooked_wrapper\<lparr>insights := [(''pS1'', [Flt (Finite (3 / 4)), Flt (Finite (7 / 8))])]\<rparr>)
       demo_data [0, 0] 2
     = Inr (demo_sim_out, 4,
            hooked_wrapper\<lparr>insights := [(''pS1'', [Flt (Finite (3 / 4)), Flt (Finite (7 / 8)),
                                                    Flt (Finite (3 / 4)), Flt (Finite (7 / 8))])]\<rparr>)"
  using sim_demo [of "hooked_wrapper\<lparr>insights := [(''pS1'', [Flt (Finite (3 / 4)), Flt (Finite (7 / 8))])]\<rparr>"
      "[Flt (Finite (3 / 4)), Flt (Finite (7 / 8))]" 2]
  by (simp add: hooked_wrapper_fields demo_data_def)

text \<open>
  Claim C10. \<^verbatim>\<open>register_hooks(*names)\<close> turns hook recording on and leaves exactly one
  log per requested name, each empty, whatever the logs were before. Every later
  \<^verbatim>\<open>sim\<close> that returns keeps the names and the old values of every log and appends to
  each log one value per trial of the dataset. So two \<^verbatim>\<open>sim\<close> calls in a row over a
  dataset of \<open>n\<close> trials, with no registration in between, leave \<open>2n\<close> values in each
  log.
\<close>

theorem hooks_accumulate:
  "use_hook (register_hooks names self)
   \<and> map_of (insights (register_hooks names self)) k = (if k \<in> set names then Some [] else None)
   \<and> (use_hook self \<and> distinct (map fst (insights self))
        \<and> sim self data params rng = Inr (out, rng', self')
      \<longrightarrow> use_hook self' \<and> logs_grown (n_trials data) (insights self) (insights self'))
   \<and> (sim (register_hooks names self) data params rng = Inr (out1, rng1, self1)
        \<and> sim self1 data params rng1 = Inr (out2, rng2, self2) \<and> k \<in> set names
      \<longrightarrow> (\<exists>l. map_of (insights self2) k = Some l \<and> length l = 2 * n_trials data))"
proof (intro conjI impI)
  show "use_hook (register_hooks names self)"
    using register_hooks_fresh [of names self k] by simp
  show "map_of (insights (register_hooks names self)) k = (if k \<in> set names then Some [] else None)"
    using register_hooks_fresh [of names self k] by simp
next
  assume a: "use_hook self \<and> distinct (map fst (insights self))
        \<and> sim self data params rng = Inr (out, rng', self')"
  then have g: "use_hook self' \<and> logs_grown (n_trials data) (insights self) (insights self')"
    using sim_grown [of self data params rng out rng' self'] by simp
  from g show "use_hook self'" by simp
  from g show "logs_grown (n_trials data) (insights self) (insights self')" by simp
next
  assume "sim (register_hooks names self) data params rng = Inr (out1, rng1, self1)
        \<and> sim self1 data params rng1 = Inr (out2, rng2, self2) \<and> k \<in> set names"
  then show "\<exists>l. map_of (insights self2) k = Some l \<and> length l = 2 * n_trials data"
    using two_sims_double [of names self data params rng out1 rng1 self1 out2 rng2 self2 k]
    by simp
qed

theorem hooks_accumulate_witness:
  "insights hooked_wrapper = [(''pS1'', [])]
   \<and> n_trials demo_data = 2
   \<and> sim hooked_wrapper demo_data [0, 0] 0
       = Inr (demo_sim_out, 2,
              hooked_wrapper\<lparr>insights := [(''pS1'', [Flt (Finite (3 / 4)), Flt (Finite (7 / 8))])]\<rparr>)
   \<and> sim (hooked_wrapper\<lparr>insights := [(''pS1'', [Flt (Finite (3 / 4)), Flt (Finite (7 / 8))])]\<rparr>)
         demo_data [0, 0] 2
       = Inr (demo_sim_out, 4,
              hooked_wrapper\<lparr>insights := [(''pS1'', [Flt (Finite (3 / 4)), Flt (Finite (7 / 8)),
                                                      Flt (Finite (3 / 4)), Flt (Finite (7 / 8))])]\<rparr>)
   \<and> logs_grown (n_trials demo_data) (insights hooked_wrapper)
        [(''pS1'', [Flt (Finite (3 / 4)), Flt (Finite (7 / 8))])]
   \<and> (\<exists>l. map_of [(''pS1'', [Flt (Finite (3 / 4)), Flt (Finite (7 / 8)),
                              Flt (Finite (3 / 4)), Flt (Finite (7 / 8))])] ''pS1'' = Some l
          \<and> length l = 2 * n_trials demo_data)"
proof -
  have n: "n_trials demo_data = 2"
    by (simp add: n_trials_def demo_data_def demo_block_def)
  have h: "register_hooks [''pS1''] demo_wrapper = hooked_wrapper"
    by (simp add: hooked_wrapper_def)
  show ?thesis
    using hooks_accumulate [where names = "[''pS1'']" and self = demo_wrapper and k = "''pS1''"
        and data = demo_data and params = "[0, 0]" and rng = 0 and ?out1.0 = demo_sim_out
        and ?rng1.0 = 2
        and ?self1.0 = "hooked_wrapper\<lparr>insights := [(''pS1'', [Flt (Finite (3 / 4)),
              Flt (Finite (7 / 8))])]\<rparr>"
        and ?out2.0 = demo_sim_out and ?rng2.0 = 4
        and ?self2.0 = "hooked_wrapper\<lparr>insights := [(''pS1'', [Flt (Finite (3 / 4)),
              Flt (Finite (7 / 8)), Flt (Finite (3 / 4)), Flt (Finite (7 / 8))])]\<rparr>"]
      hooks_accumulate [where self = hooked_wrapper and data = demo_data and params = "[0, 0]"
        and rng = 0 and out = demo_sim_out and rng' = 2
        and self' = "hooked_wrapper\<lparr>insights := [(''pS1'', [Flt (Finite (3 / 4)),
              Flt (Finite (7 / 8))])]\<rparr>"]
      sim_hooked_first sim_hooked_second
    by (simp add: h n hooked_wrapper_fields)
qed

end
